theory Spec2Isabelle
  imports Main "HOL-Library.Word"
begin

text \<open>
  A shallow embedding of \<open>src/main.mts\<close>, the module that pages through the pools of a
  PancakeSwap v2 subgraph and turns them into contract tags: the validator
  \<open>containsInvalidValue\<close>, \<open>truncateString\<close>, \<open>prepareUrl\<close>, \<open>fetchData\<close>,
  \<open>transformPairsToTags\<close> and the loop of \<open>returnTags\<close>, together with the parts of the
  JavaScript library they call. Exceptions are values of a sum type, the network and the
  console are explicit, and the loop is a partial function.
\<close>

section \<open>JavaScript strings\<close>

text \<open>
  A JavaScript string is a sequence of UTF-16 code units, and \<open>length\<close>, \<open>substring\<close>,
  \<open>trim\<close> and the regular expressions of \<open>src/main.mts\<close> all work on code units. A string
  literal of the source is written \<open>js ''...''\<close>.
\<close>

type_synonym jschar = "16 word"
type_synonym jsstring = "jschar list"

definition js :: "string \<Rightarrow> jsstring" where
  "js s = map of_char s"

text \<open>
  ECMAScript's WhiteSpace and LineTerminator code points, the ones \<open>String.prototype.trim\<close>,
  \<open>parseInt\<close> and \<open>Number(string)\<close> strip: TAB, LF, VT, FF, CR, SP, NBSP, U+1680,
  U+2000..U+200A, U+2028, U+2029, U+202F, U+205F, U+3000 and U+FEFF.
\<close>

definition isWhiteSpace :: "jschar \<Rightarrow> bool" where
  "isWhiteSpace c \<longleftrightarrow>
     c = 0x09 \<or> c = 0x0A \<or> c = 0x0B \<or> c = 0x0C \<or> c = 0x0D \<or> c = 0x20 \<or> c = 0xA0 \<or>
     c = 0x1680 \<or> (0x2000 \<le> c \<and> c \<le> 0x200A) \<or> c = 0x2028 \<or> c = 0x2029 \<or>
     c = 0x202F \<or> c = 0x205F \<or> c = 0x3000 \<or> c = 0xFEFF"

definition trim :: "jsstring \<Rightarrow> jsstring" where
  "trim s = rev (dropWhile isWhiteSpace (rev (dropWhile isWhiteSpace s)))"

text \<open>
  \<open>text.substring(start, end)\<close>: both indices are clamped to \<open>0..length\<close> and swapped when
  the first is the larger.
\<close>

definition substring :: "jsstring \<Rightarrow> int \<Rightarrow> int \<Rightarrow> jsstring" where
  "substring s start finish =
     (let len = int (length s);
          intStart = min (max start 0) len;
          intEnd = min (max finish 0) len;
          lo = min intStart intEnd;
          hi = max intStart intEnd
      in take (nat (hi - lo)) (drop (nat lo) s))"

text \<open>
  \<open>s.replace(pattern, replacement)\<close> with a string pattern: the first occurrence only.
  The replacement is taken literally; the one call of the source passes the result of
  \<open>encodeURIComponent\<close>, which holds no \<open>$\<close>.
\<close>

fun replace :: "jsstring \<Rightarrow> jsstring \<Rightarrow> jsstring \<Rightarrow> jsstring" where
  "replace [] pat rep = (if pat = [] then rep else [])"
| "replace (c # cs) pat rep =
     (if take (length pat) (c # cs) = pat then rep @ drop (length pat) (c # cs)
      else c # replace cs pat rep)"

text \<open>\<open>xs.join(sep)\<close> on an array of strings.\<close>

fun join :: "jsstring list \<Rightarrow> jsstring \<Rightarrow> jsstring" where
  "join [] sep = []"
| "join [x] sep = x"
| "join (x # y # ys) sep = x @ sep @ join (y # ys) sep"

subsection \<open>The regular expression of the validator\<close>

text \<open>
  \<open>/<[^>]*>/\<close> anchored at the start of a string: a \<open><\<close>, then the greedy run of code units
  other than \<open>>\<close>, then a \<open>>\<close>. Backtracking the run cannot help, since every code unit
  it gives back is not a \<open>>\<close>.
\<close>

fun matchTagAt :: "jsstring \<Rightarrow> bool" where
  "matchTagAt [] = False"
| "matchTagAt (c # cs) =
     (c = of_char CHR ''<'' \<and> dropWhile (\<lambda>d. d \<noteq> of_char CHR ''>'') cs \<noteq> [])"

text \<open>\<open>/<[^>]*>/.test(text)\<close>: the pattern is tried at every start index, left to right.\<close>

fun testTag :: "jsstring \<Rightarrow> bool" where
  "testTag [] = False"
| "testTag (c # cs) = (matchTagAt (c # cs) \<or> testTag cs)"

section \<open>JavaScript numbers\<close>

text \<open>
  A JavaScript number is an IEEE double. The numbers of the program are timestamps, HTTP
  status codes and the pagination cursor, all of them integers: the model holds the
  integer-valued doubles (\<open>Num\<close> with the integer, always one that a double represents
  exactly), the infinities and \<open>NaN\<close>. Numbers with a fraction are outside the model.
\<close>

datatype number = Num int | NaN | PosInfinity | NegInfinity

function bitLength :: "int \<Rightarrow> nat" where
  "bitLength a = (if a \<le> 0 then 0 else Suc (bitLength (a div 2)))"
  by pat_completeness auto
termination
  by (relation "measure nat") auto

declare bitLength.simps [simp del]

text \<open>The multiple of \<open>unit\<close> nearest to \<open>a\<close>, a tie going to the even multiple.\<close>

definition roundHalfEven :: "int \<Rightarrow> int \<Rightarrow> int" where
  "roundHalfEven a unit =
     (let q = a div unit; r = a mod unit in
      if unit < 2 * r \<or> (2 * r = unit \<and> odd q) then (q + 1) * unit else q * unit)"

text \<open>
  The Number value for a mathematical integer, as \<open>JSON.parse\<close> and \<open>parseInt\<close> produce it:
  the magnitude is rounded to 53 significant bits (nearest, ties to even), and to an
  infinity from \<open>2^1024\<close> on.
\<close>

definition toDouble :: "int \<Rightarrow> number" where
  "toDouble t =
     (let a = \<bar>t\<bar>;
          r = roundHalfEven a (2 ^ (bitLength a - 53))
      in if 1024 < bitLength r then (if t < 0 then NegInfinity else PosInfinity)
         else Num (if t < 0 then - r else r))"

definition digitChar :: "int \<Rightarrow> jschar" where
  "digitChar d = of_int (48 + d)"

text \<open>The decimal digits of a non-negative integer, most significant first.\<close>

function digits10 :: "int \<Rightarrow> jsstring" where
  "digits10 n = (if n < 10 then [digitChar n] else digits10 (n div 10) @ [digitChar (n mod 10)])"
  by pat_completeness auto
termination
  by (relation "measure nat") auto

declare digits10.simps [simp del]

definition stripTrailingZeros :: "jsstring \<Rightarrow> jsstring" where
  "stripTrailingZeros ds = rev (dropWhile (\<lambda>c. c = digitChar 0) (rev ds))"

text \<open>
  \<open>Number::toString\<close> prints the decimal number with the fewest significant digits that
  still converts back to the double \<open>x\<close>, and of these the one nearest to \<open>x\<close> (the even
  one on a tie). For a positive integer \<open>x\<close> of \<open>len\<close> digits the search goes through
  \<open>k = 1, 2, \<dots>\<close> significant digits: the two multiples of \<open>10^(len - k)\<close> around \<open>x\<close> are
  the candidates, and with all \<open>len\<close> digits \<open>x\<close> itself is one.
\<close>

function shortestFrom :: "int \<Rightarrow> nat \<Rightarrow> nat \<Rightarrow> int" where
  "shortestFrom x len k =
     (if len \<le> k then x
      else
        (let p = 10 ^ (len - k);
             lo = (x div p) * p;
             hi = lo + p;
             okLo = (toDouble lo = Num x);
             okHi = (toDouble hi = Num x)
         in if okLo \<and> okHi then
              (if x - lo < hi - x then lo
               else if hi - x < x - lo then hi
               else if even (x div p) then lo else hi)
            else if okLo then lo
            else if okHi then hi
            else shortestFrom x len (Suc k)))"
  by pat_completeness auto
termination
  by (relation "measure (\<lambda>(x, len, k). len - k)") auto

declare shortestFrom.simps [simp del]

definition shortestDecimal :: "int \<Rightarrow> int" where
  "shortestDecimal x = shortestFrom x (length (digits10 x)) 1"

text \<open>
  \<open>Number.prototype.toString()\<close> on a non-negative integer-valued double: the digits of
  its shortest decimal, zeros included, when these are at most 21, and the exponent form
  \<open>d.ddde+n\<close> beyond (\<open>1e+21\<close> for \<open>10^21\<close>).
\<close>

definition unsignedToString :: "int \<Rightarrow> jsstring" where
  "unsignedToString x =
     (let ds = digits10 (shortestDecimal x); n = length ds in
      if n \<le> 21 then ds
      else (case stripTrailingZeros ds of
              [] \<Rightarrow> ds
            | d # rest \<Rightarrow>
                (if rest = [] then [d] else d # js ''.'' @ rest) @ js ''e+'' @
                digits10 (int n - 1)))"

fun number_toString :: "number \<Rightarrow> jsstring" where
  "number_toString (Num x) =
     (if x < 0 then js ''-'' @ unsignedToString (- x) else unsignedToString x)"
| "number_toString NaN = js ''NaN''"
| "number_toString PosInfinity = js ''Infinity''"
| "number_toString NegInfinity = js ''-Infinity''"

definition isDigit :: "jschar \<Rightarrow> bool" where
  "isDigit c \<longleftrightarrow> 48 \<le> c \<and> c \<le> 57"

definition digitValue :: "jschar \<Rightarrow> int" where
  "digitValue c = int (unat c) - 48"

text \<open>
  \<open>parseInt(inputString, 10)\<close>: leading white space is skipped, one sign is read, then the
  longest run of decimal digits; \<open>NaN\<close> when that run is empty, and otherwise the Number
  value for the integer the digits spell.
\<close>

definition parseInt :: "jsstring \<Rightarrow> number" where
  "parseInt inputString =
     (let S = dropWhile isWhiteSpace inputString;
          sign = (case S of [] \<Rightarrow> 1 | c # _ \<Rightarrow> if c = of_char CHR ''-'' then - 1 else (1::int));
          S1 = (case S of [] \<Rightarrow> []
                | c # rest \<Rightarrow> if c = of_char CHR ''+'' \<or> c = of_char CHR ''-'' then rest else S);
          Z = takeWhile isDigit S1
      in if Z = [] then NaN
         else toDouble (sign * foldl (\<lambda>acc c. 10 * acc + digitValue c) 0 Z))"

subsection \<open>\<open>isNaN(Number(string))\<close>\<close>

text \<open>
  \<open>Number(s)\<close> is \<open>NaN\<close> unless \<open>s\<close>, trimmed, is empty (the value \<open>0\<close>) or a
  StringNumericLiteral: a signed decimal literal (digits with an optional fraction and
  exponent, or \<open>Infinity\<close>) or an unsigned binary, octal or hexadecimal integer literal.
\<close>

definition isHexDigit :: "jschar \<Rightarrow> bool" where
  "isHexDigit c \<longleftrightarrow> isDigit c \<or> (65 \<le> c \<and> c \<le> 70) \<or> (97 \<le> c \<and> c \<le> 102)"

definition isExponentPartOrEmpty :: "jsstring \<Rightarrow> bool" where
  "isExponentPartOrEmpty r =
     (case r of
        [] \<Rightarrow> True
      | e # t \<Rightarrow>
          (e = of_char CHR ''e'' \<or> e = of_char CHR ''E'') \<and>
          (let ds = (case t of [] \<Rightarrow> []
                     | c # u \<Rightarrow> if c = of_char CHR ''+'' \<or> c = of_char CHR ''-'' then u else t)
           in ds \<noteq> [] \<and> list_all isDigit ds))"

definition isStrUnsignedDecimalLiteral :: "jsstring \<Rightarrow> bool" where
  "isStrUnsignedDecimalLiteral s =
     (s = js ''Infinity'' \<or>
      (let ip = takeWhile isDigit s; r1 = dropWhile isDigit s in
       case r1 of
         [] \<Rightarrow> ip \<noteq> []
       | c # t \<Rightarrow>
           if c = of_char CHR ''.''
           then (ip \<noteq> [] \<or> takeWhile isDigit t \<noteq> []) \<and> isExponentPartOrEmpty (dropWhile isDigit t)
           else ip \<noteq> [] \<and> isExponentPartOrEmpty r1))"

definition isNonDecimalIntegerLiteral :: "jsstring \<Rightarrow> bool" where
  "isNonDecimalIntegerLiteral s =
     (case s of
        z # p # ds \<Rightarrow>
          z = of_char CHR ''0'' \<and> ds \<noteq> [] \<and>
          (if p = of_char CHR ''x'' \<or> p = of_char CHR ''X'' then list_all isHexDigit ds
           else if p = of_char CHR ''o'' \<or> p = of_char CHR ''O''
             then list_all (\<lambda>c. 48 \<le> c \<and> c \<le> 55) ds
           else if p = of_char CHR ''b'' \<or> p = of_char CHR ''B''
             then list_all (\<lambda>c. c = 48 \<or> c = 49) ds
           else False)
      | _ \<Rightarrow> False)"

definition isStrNumericLiteral :: "jsstring \<Rightarrow> bool" where
  "isStrNumericLiteral s =
     (isNonDecimalIntegerLiteral s \<or>
      (case s of
         [] \<Rightarrow> False
       | c # t \<Rightarrow>
           if c = of_char CHR ''+'' \<or> c = of_char CHR ''-'' then isStrUnsignedDecimalLiteral t
           else isStrUnsignedDecimalLiteral s))"

definition isNaN_Number :: "jsstring \<Rightarrow> bool" where
  "isNaN_Number s = (let t = trim s in t \<noteq> [] \<and> \<not> isStrNumericLiteral t)"

section \<open>Errors\<close>

text \<open>
  What a \<open>throw\<close> or a rejected promise carries: an \<open>Error\<close> object (also of a subclass
  such as \<open>TypeError\<close> or node-fetch's \<open>FetchError\<close>) with its \<open>name\<close> and \<open>message\<close>, or
  a value that is no object with a string \<open>message\<close>, of which only the string conversion
  is kept.
\<close>

datatype thrown = Error (error_name: jsstring) (error_message: jsstring) | NonError jsstring

text \<open>\<open>new Error(message)\<close>.\<close>

definition new_Error :: "jsstring \<Rightarrow> thrown" where
  "new_Error msg = Error (js ''Error'') msg"

text \<open>
  The type guard \<open>isError\<close>: an object, not \<open>null\<close>, with a \<open>message\<close> that is a string.
\<close>

fun isError :: "thrown \<Rightarrow> bool" where
  "isError (Error n m) = True"
| "isError (NonError s) = False"

text \<open>
  The string conversion a template literal applies, \<open>Error.prototype.toString\<close> for an
  \<open>Error\<close> object.
\<close>

fun ToString :: "thrown \<Rightarrow> jsstring" where
  "ToString (Error n m) = (if n = [] then m else if m = [] then n else n @ js '': '' @ m)"
| "ToString (NonError s) = s"

section \<open>The chain registry and URL resolution\<close>

text \<open>\<open>SUBGRAPH_URLS\<close>: each chain identifier with the \<open>decentralized\<close> URL of its entry.\<close>

definition SUBGRAPH_URLS :: "(jsstring \<times> jsstring) list" where
  "SUBGRAPH_URLS =
     [(js ''1'',
       js ''https://gateway.thegraph.com/api/[api-key]/subgraphs/id/9opY17WnEPD4REcC43yHycQthSeUMQE26wyoeMjZTLEx''),
      (js ''324'',
       js ''https://gateway.thegraph.com/api/[api-key]/subgraphs/id/6dU6WwEz22YacyzbTbSa3CECCmaD8G7oQ8aw6MYd5VKU''),
      (js ''1101'',
       js ''https://gateway.thegraph.com/api/[api-key]/subgraphs/id/37WmH5kBu6QQytRpMwLJMGPRbXvHgpuZsWqswW4Finc2''),
      (js ''8453'',
       js ''https://gateway.thegraph.com/api/[api-key]/subgraphs/id/2NjL7L4CmQaGJSacM43ofmH6ARf6gJoBeBaJtz9eWAQ9''),
      (js ''42161'',
       js ''https://gateway.thegraph.com/api/[api-key]/subgraphs/id/EsL7geTRcA3LaLLM9EcMFzYbUgnvf8RixoEEGErrodB3''),
      (js ''59144'',
       js ''https://gateway.thegraph.com/api/[api-key]/subgraphs/id/Eti2Z5zVEdARnuUzjCbv4qcimTLysAizsqH3s6cBfPjB'')]"

text \<open>
  \<open>Object.keys(SUBGRAPH_URLS)\<close>: integer-like keys come in ascending numeric order, which
  is the order of the object literal here.
\<close>

definition Object_keys :: "(jsstring \<times> jsstring) list \<Rightarrow> jsstring list" where
  "Object_keys obj = map fst obj"

text \<open>
  \<open>SUBGRAPH_URLS[chainId]\<close> reads the object's own entry or, failing that, a member the
  object literal inherits from \<open>Object.prototype\<close> (every one of them a truthy value
  with no \<open>decentralized\<close> field), and is \<open>undefined\<close> otherwise.
\<close>

datatype property = Undefined | Entry jsstring | Inherited

definition objectPrototypeKeys :: "jsstring list" where
  "objectPrototypeKeys =
     map js [''constructor'', ''__defineGetter__'', ''__defineSetter__'', ''hasOwnProperty'',
       ''__lookupGetter__'', ''__lookupSetter__'', ''isPrototypeOf'', ''propertyIsEnumerable'',
       ''toString'', ''valueOf'', ''__proto__'', ''toLocaleString'']"

definition getProperty :: "(jsstring \<times> jsstring) list \<Rightarrow> jsstring \<Rightarrow> property" where
  "getProperty obj key =
     (case map_of obj key of
        Some url \<Rightarrow> Entry url
      | None \<Rightarrow> if key \<in> set objectPrototypeKeys then Inherited else Undefined)"

subsection \<open>\<open>encodeURIComponent\<close>\<close>

definition uriUnreserved :: "jschar \<Rightarrow> bool" where
  "uriUnreserved c \<longleftrightarrow>
     (65 \<le> c \<and> c \<le> 90) \<or> (97 \<le> c \<and> c \<le> 122) \<or> isDigit c \<or>
     c \<in> set (js ''-_.!~*()'') \<or> c = 39"

definition hexChar :: "nat \<Rightarrow> jschar" where
  "hexChar d = (if d < 10 then of_nat (48 + d) else of_nat (55 + d))"

definition percentEncode :: "nat \<Rightarrow> jsstring" where
  "percentEncode b = [of_char CHR ''%'', hexChar (b div 16), hexChar (b mod 16)]"

definition utf8 :: "nat \<Rightarrow> nat list" where
  "utf8 cp =
     (if cp < 0x80 then [cp]
      else if cp < 0x800 then [0xC0 + cp div 64, 0x80 + cp mod 64]
      else if cp < 0x10000 then [0xE0 + cp div 4096, 0x80 + cp div 64 mod 64, 0x80 + cp mod 64]
      else [0xF0 + cp div 262144, 0x80 + cp div 4096 mod 64, 0x80 + cp div 64 mod 64,
            0x80 + cp mod 64])"

definition isLeadSurrogate :: "jschar \<Rightarrow> bool" where
  "isLeadSurrogate c \<longleftrightarrow> 0xD800 \<le> c \<and> c \<le> 0xDBFF"

definition isTrailSurrogate :: "jschar \<Rightarrow> bool" where
  "isTrailSurrogate c \<longleftrightarrow> 0xDC00 \<le> c \<and> c \<le> 0xDFFF"

definition URIError :: thrown where
  "URIError = Error (js ''URIError'') (js ''URI malformed'')"

text \<open>
  Unreserved code units are kept; every other code point is written as the percent-encoded
  octets of its UTF-8 form; a surrogate without its partner raises \<open>URIError\<close>.
\<close>

fun encodeURIComponent :: "jsstring \<Rightarrow> thrown + jsstring" where
  "encodeURIComponent [] = Inr []"
| "encodeURIComponent (c # cs) =
     (if uriUnreserved c then
        (case encodeURIComponent cs of Inl e \<Rightarrow> Inl e | Inr r \<Rightarrow> Inr (c # r))
      else if isTrailSurrogate c then Inl URIError
      else if isLeadSurrogate c then
        (case cs of
           [] \<Rightarrow> Inl URIError
         | d # ds \<Rightarrow>
             if isTrailSurrogate d then
               (case encodeURIComponent ds of
                  Inl e \<Rightarrow> Inl e
                | Inr r \<Rightarrow>
                    Inr (concat (map percentEncode
                           (utf8 ((unat c - 0xD800) * 0x400 + (unat d - 0xDC00) + 0x10000))) @ r))
             else Inl URIError)
      else
        (case encodeURIComponent cs of
           Inl e \<Rightarrow> Inl e
         | Inr r \<Rightarrow> Inr (concat (map percentEncode (utf8 (unat c))) @ r)))"

subsection \<open>\<open>prepareUrl\<close>\<close>

text \<open>
  The guard \<open>!urls || isNaN(Number(chainId))\<close>, then the substitution of the encoded key.
  The last branch stands for \<open>urls.decentralized.replace\<close> on an inherited member, where
  \<open>urls.decentralized\<close> is \<open>undefined\<close>; the message is the engine's.
\<close>

definition prepareUrl :: "jsstring \<Rightarrow> jsstring \<Rightarrow> thrown + jsstring" where
  "prepareUrl chainId apiKey =
     (let urls = getProperty SUBGRAPH_URLS chainId in
      if urls = Undefined \<or> isNaN_Number chainId then
        (let supportedChainIds = join (Object_keys SUBGRAPH_URLS) (js '', '') in
         Inl (new_Error (js ''Unsupported or invalid Chain ID provided: '' @ chainId @
                js ''. Only the following values are accepted: '' @ supportedChainIds)))
      else
        (case urls of
           Entry decentralized \<Rightarrow>
             (case encodeURIComponent apiKey of
                Inl e \<Rightarrow> Inl e
              | Inr key \<Rightarrow> Inr (replace decentralized (js ''[api-key]'') key))
         | _ \<Rightarrow> Inl (Error (js ''TypeError'')
                      (js ''Cannot read properties of undefined (reading replace)''))))"

section \<open>The data model\<close>

text \<open>
  The interfaces \<open>PoolToken\<close> and \<open>Pair\<close>. Both have a field \<open>id\<close>, written \<open>token_id\<close> and
  \<open>pair_id\<close> here. \<open>timestamp_json\<close> is the integer that the JSON text of the payload
  carries for the timestamp; \<open>response.json()\<close> turns it into a number, and \<open>timestamp\<close> is
  the field as the program reads it.
\<close>

record PoolToken =
  token_id :: jsstring
  name :: jsstring
  symbol :: jsstring

record Pair =
  pair_id :: jsstring
  timestamp_json :: int
  token0 :: PoolToken
  token1 :: PoolToken

definition timestamp :: "Pair \<Rightarrow> number" where
  "timestamp pair = toDouble (timestamp_json pair)"

text \<open>
  The response is cast to \<open>GraphQLResponse\<close>, not checked. \<open>data\<close> is \<open>None\<close> when the field
  is absent or \<open>null\<close>; \<open>pairs\<close> is optional here too, since \<open>fetchData\<close> tests for it. For
  \<open>errors\<close> the interface declares a list; the JSON text can also carry \<open>null\<close> there,
  which the test \<open>if (result.errors)\<close> takes like an absent field, while every list, the
  empty one too, is truthy.
\<close>

record GraphQLData =
  pairs :: "Pair list option"

record GraphQLError =
  message :: jsstring

datatype errors_field = ErrorsAbsent | ErrorsNull | ErrorsList "GraphQLError list"

record GraphQLResponse =
  data :: "GraphQLData option"
  errors :: errors_field

record ContractTag =
  Contract_Address :: jsstring
  Public_Name_Tag :: jsstring
  Project_Name :: jsstring
  UI_Website_Link :: jsstring
  Public_Note :: jsstring

section \<open>The validator and the transformer\<close>

definition containsInvalidValue :: "jsstring \<Rightarrow> bool" where
  "containsInvalidValue text =
     (let containsHtml = testTag text;
          isEmpty = (trim text = [])
      in isEmpty \<or> containsHtml)"

definition truncateString :: "jsstring \<Rightarrow> int \<Rightarrow> jsstring" where
  "truncateString text maxLength =
     (if int (length text) > maxLength then substring text 0 (maxLength - 3) @ js ''...''
      else text)"

text \<open>What the program writes with \<open>console.log\<close> and \<open>console.error\<close>.\<close>

datatype console_entry = ConsoleLog jsstring "jsstring list" | ConsoleError jsstring

text \<open>
  The body of the \<open>pairs.forEach\<close> callback, on the two arrays it pushes to.
\<close>

definition checkPair :: "Pair \<Rightarrow> Pair list \<times> jsstring list \<Rightarrow> Pair list \<times> jsstring list" where
  "checkPair pair acc =
     (let validPairs = fst acc; rejectedNames = snd acc;
          token0Invalid =
            (containsInvalidValue (name (token0 pair)) \<or> containsInvalidValue (symbol (token0 pair)));
          token1Invalid =
            (containsInvalidValue (name (token1 pair)) \<or> containsInvalidValue (symbol (token1 pair)))
      in if token0Invalid \<or> token1Invalid then
           (let rejected0 =
                  (if token0Invalid then
                     rejectedNames @
                     [js ''Contract: '' @ pair_id pair @
                      js '' rejected due to invalid token symbol/name - Token0: '' @
                      name (token0 pair) @ js '', Symbol: '' @ symbol (token0 pair)]
                   else rejectedNames);
                rejected1 =
                  (if token1Invalid then
                     rejected0 @
                     [js ''Contract: '' @ pair_id pair @
                      js '' rejected due to invalid token symbol/name - Token1: '' @
                      name (token1 pair) @ js '', Symbol: '' @ symbol (token1 pair)]
                   else rejected0)
            in (validPairs, rejected1))
         else (validPairs @ [pair], rejectedNames))"

text \<open>The body of the \<open>validPairs.map\<close> callback.\<close>

definition pairToTag :: "jsstring \<Rightarrow> Pair \<Rightarrow> ContractTag" where
  "pairToTag chainId pair =
     (let maxSymbolsLength = 45;
          symbolsText = symbol (token0 pair) @ js ''/'' @ symbol (token1 pair);
          truncatedSymbolsText = truncateString symbolsText maxSymbolsLength
      in \<lparr>Contract_Address = js ''eip155:'' @ chainId @ js '':'' @ pair_id pair,
          Public_Name_Tag = truncatedSymbolsText @ js '' Pool'',
          Project_Name = js ''PancakeSwap v2'',
          UI_Website_Link = js ''https://pancakeswap.finance/'',
          Public_Note =
            js ''The liquidity pool contract on PancakeSwap v2 for the '' @
            name (token0 pair) @ js '' ('' @ symbol (token0 pair) @ js '') / '' @
            name (token1 pair) @ js '' ('' @ symbol (token1 pair) @ js '') pair.''\<rparr>)"

text \<open>
  \<open>transformPairsToTags\<close> returns the tags; the second component is what it writes to
  the console.
\<close>

definition transformPairsToTags ::
  "jsstring \<Rightarrow> Pair list \<Rightarrow> ContractTag list \<times> console_entry list" where
  "transformPairsToTags chainId ps =
     (let acc = fold checkPair ps ([], []);
          validPairs = fst acc; rejectedNames = snd acc
      in (map (pairToTag chainId) validPairs,
          if length rejectedNames > 0 then [ConsoleLog (js ''Rejected contracts:'') rejectedNames]
          else []))"

section \<open>The fetcher\<close>

text \<open>
  What \<open>fetchData\<close> reads of a response: \<open>ok\<close>, \<open>status\<close> (the integer of the status
  line, a number to the program), and the outcome of \<open>response.json()\<close>, which is the
  parsed payload or a rejection.
\<close>

record Response =
  ok :: bool
  status :: int
  json :: "thrown + GraphQLResponse"

text \<open>
  The network: the outcome of the \<open>n\<close>-th call of \<open>fetch\<close> (counted from 0) for the URL and
  the \<open>lastTimestamp\<close> variable it posts, a rejection or a response. Method, headers and
  query text are constants of the program.
\<close>

type_synonym network = "nat \<Rightarrow> jsstring \<Rightarrow> number \<Rightarrow> thrown + Response"

text \<open>The effects of a run: the fetch calls issued, in order, and the console output.\<close>

record world =
  requests :: "(jsstring \<times> number) list"
  console :: "console_entry list"

definition fetchData ::
  "network \<Rightarrow> jsstring \<Rightarrow> number \<Rightarrow> world \<Rightarrow> (thrown + Pair list) \<times> world" where
  "fetchData net subgraphUrl lastTimestamp w =
     (let w1 = w\<lparr>requests := requests w @ [(subgraphUrl, lastTimestamp)]\<rparr> in
      case net (length (requests w)) subgraphUrl lastTimestamp of
        Inl e \<Rightarrow> (Inl e, w1)
      | Inr response \<Rightarrow>
          if \<not> ok response then
            (Inl (new_Error (js ''HTTP error: '' @ number_toString (toDouble (status response)))), w1)
          else
            (case json response of
               Inl e \<Rightarrow> (Inl e, w1)
             | Inr result \<Rightarrow>
                 (let readPairs =
                        (case data result of
                           None \<Rightarrow> (Inl (new_Error (js ''No pairs data found.'')), w1)
                         | Some d \<Rightarrow>
                             (case pairs d of
                                None \<Rightarrow> (Inl (new_Error (js ''No pairs data found.'')), w1)
                              | Some ps \<Rightarrow> (Inr ps, w1)))
                  in case errors result of
                       ErrorsList errs \<Rightarrow>
                         (Inl (new_Error (js ''GraphQL errors occurred: see logs for details.'')),
                          w1\<lparr>console := console w1 @
                               map (\<lambda>error. ConsoleError (js ''GraphQL error: '' @ message error)) errs\<rparr>)
                     | ErrorsNull \<Rightarrow> readPairs
                     | ErrorsAbsent \<Rightarrow> readPairs)))"

section \<open>The orchestrator\<close>

text \<open>The \<open>catch\<close> block of the loop: what it logs and the error it throws.\<close>

definition catchBlock :: "thrown \<Rightarrow> world \<Rightarrow> thrown \<times> world" where
  "catchBlock error w =
     (if isError error then
        (new_Error (js ''Failed fetching data: '' @ ToString error),
         w\<lparr>console := console w @ [ConsoleError (js ''An error occurred: '' @ error_message error)]\<rparr>)
      else
        (new_Error (js ''An unknown error occurred during fetch operation.''),
         w\<lparr>console := console w @ [ConsoleError (js ''An unknown error occurred.'')]\<rparr>))"

text \<open>
  The \<open>while (isMore)\<close> loop, entered with \<open>isMore\<close> true. It may run forever (a server that
  keeps returning full pages), so the result is an option: \<open>None\<close> for a run that does not
  return.
\<close>

partial_function (option) returnTags_loop ::
  "network \<Rightarrow> jsstring \<Rightarrow> jsstring \<Rightarrow> number \<Rightarrow> ContractTag list \<Rightarrow> world \<Rightarrow>
   ((thrown + ContractTag list) \<times> world) option" where
  "returnTags_loop net chainId url lastTimestamp allTags w =
     (case fetchData net url lastTimestamp w of
        (Inl error, w1) \<Rightarrow>
          (case catchBlock error w1 of (e, w2) \<Rightarrow> Some (Inl e, w2))
      | (Inr ps, w1) \<Rightarrow>
          (case transformPairsToTags chainId ps of
             (tags, logged) \<Rightarrow>
               (let allTags1 = allTags @ tags;
                    w2 = w1\<lparr>console := console w1 @ logged\<rparr>;
                    isMore = (length ps = 1000)
                in if isMore then
                     returnTags_loop net chainId url
                       (parseInt (number_toString (timestamp (ps ! (length ps - 1))))) allTags1 w2
                   else Some (Inr allTags1, w2))))"

declare returnTags_loop.simps [code]

definition returnTags ::
  "network \<Rightarrow> jsstring \<Rightarrow> jsstring \<Rightarrow> ((thrown + ContractTag list) \<times> world) option" where
  "returnTags net chainId apiKey =
     (let w0 = \<lparr>requests = [], console = []\<rparr> in
      case prepareUrl chainId apiKey of
        Inl e \<Rightarrow> Some (Inl e, w0)
      | Inr url \<Rightarrow> returnTags_loop net chainId url (Num 0) [] w0)"

section \<open>Sample inputs\<close>

text \<open>Concrete tokens, pairs and pages, used to instantiate the theorems below.\<close>

definition usdCoin :: PoolToken where
  "usdCoin = \<lparr>token_id = js ''0xa0b8'', name = js ''USD Coin'', symbol = js ''USDC''\<rparr>"

definition wrappedEther :: PoolToken where
  "wrappedEther = \<lparr>token_id = js ''0xc02a'', name = js ''Wrapped Ether'', symbol = js ''WETH''\<rparr>"

definition scriptToken :: PoolToken where
  "scriptToken = \<lparr>token_id = js ''0xbad0'', name = js ''<script>'', symbol = js ''XSS''\<rparr>"

definition goodPair :: Pair where
  "goodPair = \<lparr>pair_id = js ''0xabc'', timestamp_json = 1600000000, token0 = usdCoin, token1 = wrappedEther\<rparr>"

definition badPair :: Pair where
  "badPair = \<lparr>pair_id = js ''0xdef'', timestamp_json = 1600000777, token0 = usdCoin, token1 = scriptToken\<rparr>"

text \<open>A successful response whose payload holds the given page of pairs and no errors.\<close>

definition okResponse :: "Pair list \<Rightarrow> thrown + Response" where
  "okResponse ps =
     Inr \<lparr>ok = True, status = 200,
          json = Inr \<lparr>data = Some \<lparr>pairs = Some ps\<rparr>, errors = ErrorsAbsent\<rparr>\<rparr>"

text \<open>A response with HTTP status 500 and a body that is not JSON.\<close>

definition serverError :: "thrown + Response" where
  "serverError =
     Inr \<lparr>ok = False, status = 500,
          json = Inl (Error (js ''SyntaxError'') (js ''Unexpected end of JSON input''))\<rparr>"

text \<open>
  A mocked network: the \<open>n\<close>-th call is answered with the \<open>n\<close>-th page of a list, whatever
  the cursor, and with the server error once the list is used up.
\<close>

definition pagesNet :: "Pair list list \<Rightarrow> network" where
  "pagesNet pages n url cur = (if n < length pages then okResponse (pages ! n) else serverError)"

text \<open>
  Pages for the mocked network: a full page of valid pairs, a full page of rejected
  pairs, and a last page of 437 valid pairs.
\<close>

definition fullPage :: "Pair list" where
  "fullPage = replicate 1000 goodPair"

definition rejectedPage :: "Pair list" where
  "rejectedPage = replicate 1000 badPair"

definition lastPage :: "Pair list" where
  "lastPage = replicate 437 goodPair"



text \<open>The URL that \<open>prepareUrl\<close> gives for chain \<open>1\<close> and the API key \<open>key\<close>.\<close>

definition sampleUrl :: jsstring where
  "sampleUrl =
     js ''https://gateway.thegraph.com/api/key/subgraphs/id/9opY17WnEPD4REcC43yHycQthSeUMQE26wyoeMjZTLEx''"







text \<open>A network whose every call is rejected with a value that is not an error object.\<close>

definition rejectingNet :: network where
  "rejectingNet n url cur = Inl (NonError (js ''timeout''))"

section \<open>Lemmas\<close>

subsection \<open>The regular expression\<close>

text \<open>
  \<open>testTag\<close> holds exactly of the strings with a substring in the language of
  \<open><[^>]*>\<close>.
\<close>

lemma dropWhile_neq_nonempty: "dropWhile (\<lambda>d. d \<noteq> g) cs \<noteq> [] \<longleftrightarrow> g \<in> set cs"
  by (induction cs) auto

lemma matchTagAt_iff:
  "matchTagAt t \<longleftrightarrow>
     (\<exists>mid post. t = of_char CHR ''<'' # mid @ of_char CHR ''>'' # post \<and> of_char CHR ''>'' \<notin> set mid)"
proof (cases t)
  case Nil
  then show ?thesis by simp
next
  case (Cons c cs)
  have "of_char CHR ''>'' \<in> set cs \<longleftrightarrow>
        (\<exists>mid post. cs = mid @ of_char CHR ''>'' # post \<and> (of_char CHR ''>'' :: jschar) \<notin> set mid)"
    by (metis split_list_first in_set_conv_decomp)
  with Cons show ?thesis
    by (auto simp: dropWhile_neq_nonempty)
qed

lemma testTag_iff_suffix: "testTag t \<longleftrightarrow> (\<exists>pre suf. t = pre @ suf \<and> matchTagAt suf)"
proof (induction t)
  case Nil
  then show ?case by simp
next
  case (Cons c cs)
  show ?case
  proof
    assume "testTag (c # cs)"
    then consider "matchTagAt (c # cs)" | "testTag cs" by auto
    then show "\<exists>pre suf. c # cs = pre @ suf \<and> matchTagAt suf"
    proof cases
      case 1
      then show ?thesis by (intro exI [of _ "[]"] exI [of _ "c # cs"]) simp
    next
      case 2
      with Cons.IH obtain pre suf where "cs = pre @ suf" "matchTagAt suf" by blast
      then show ?thesis by (intro exI [of _ "c # pre"] exI [of _ suf]) simp
    qed
  next
    assume "\<exists>pre suf. c # cs = pre @ suf \<and> matchTagAt suf"
    then obtain pre suf where ps: "c # cs = pre @ suf" "matchTagAt suf" by blast
    show "testTag (c # cs)"
    proof (cases pre)
      case Nil
      with ps have "matchTagAt (c # cs)" by simp
      then show ?thesis by simp
    next
      case (Cons a pre')
      with ps have "cs = pre' @ suf" by simp
      with ps(2) Cons.IH have "testTag cs" by blast
      then show ?thesis by simp
    qed
  qed
qed

lemma testTag_iff:
  "testTag t \<longleftrightarrow>
     (\<exists>pre mid post. t = pre @ of_char CHR ''<'' # mid @ of_char CHR ''>'' # post \<and>
        of_char CHR ''>'' \<notin> set mid)"
  unfolding testTag_iff_suffix matchTagAt_iff by blast

subsection \<open>The transformer\<close>

text \<open>The \<open>forEach\<close> loop keeps, in order, the pairs whose four fields are all valid.\<close>

lemma fst_fold_checkPair:
  "fst (fold checkPair ps acc) =
     fst acc @
     filter (\<lambda>p. \<not> containsInvalidValue (name (token0 p)) \<and>
                  \<not> containsInvalidValue (symbol (token0 p)) \<and>
                  \<not> containsInvalidValue (name (token1 p)) \<and>
                  \<not> containsInvalidValue (symbol (token1 p))) ps"
proof (induction ps arbitrary: acc)
  case Nil
  then show ?case by simp
next
  case (Cons p ps)
  show ?case
    by (simp add: Cons.IH) (simp add: checkPair_def Let_def)
qed

lemma transformPairsToTags_tags:
  "fst (transformPairsToTags chainId ps) =
     map (pairToTag chainId)
       (filter (\<lambda>p. \<not> containsInvalidValue (name (token0 p)) \<and>
                    \<not> containsInvalidValue (symbol (token0 p)) \<and>
                    \<not> containsInvalidValue (name (token1 p)) \<and>
                    \<not> containsInvalidValue (symbol (token1 p))) ps)"
  by (simp add: transformPairsToTags_def Let_def fst_fold_checkPair)

subsection \<open>URL resolution\<close>

lemma Object_keys_SUBGRAPH_URLS:
  "Object_keys SUBGRAPH_URLS = map js [''1'', ''324'', ''1101'', ''8453'', ''42161'', ''59144'']"
  by (simp add: SUBGRAPH_URLS_def Object_keys_def)

lemma supportedChainIds_joined:
  "join (Object_keys SUBGRAPH_URLS) (js '', '') = js ''1, 324, 1101, 8453, 42161, 59144''"
  unfolding Object_keys_SUBGRAPH_URLS by (simp add: js_def)

text \<open>No member inherited from \<open>Object.prototype\<close> has a numeric name.\<close>

lemma objectPrototypeKeys_not_numeric: "list_all isNaN_Number objectPrototypeKeys"
  by code_simp

lemma getProperty_unsupported:
  assumes "chainId \<notin> set (Object_keys SUBGRAPH_URLS) \<or> isNaN_Number chainId"
  shows "getProperty SUBGRAPH_URLS chainId = Undefined \<or> isNaN_Number chainId"
proof (cases "isNaN_Number chainId")
  case True
  then show ?thesis by simp
next
  case False
  with assms have "chainId \<notin> fst ` set SUBGRAPH_URLS"
    by (simp add: Object_keys_def)
  then have none: "map_of SUBGRAPH_URLS chainId = None"
    by (simp add: map_of_eq_None_iff)
  from False objectPrototypeKeys_not_numeric have "chainId \<notin> set objectPrototypeKeys"
    by (auto simp: list_all_iff)
  with none show ?thesis
    by (simp add: getProperty_def)
qed

lemma prepareUrl_unsupported:
  assumes "chainId \<notin> set (Object_keys SUBGRAPH_URLS) \<or> isNaN_Number chainId"
  shows "prepareUrl chainId apiKey =
     Inl (new_Error (js ''Unsupported or invalid Chain ID provided: '' @ chainId @
            js ''. Only the following values are accepted: 1, 324, 1101, 8453, 42161, 59144''))"
proof -
  have msg: "js ''. Only the following values are accepted: '' @ js ''1, 324, 1101, 8453, 42161, 59144'' =
      js ''. Only the following values are accepted: 1, 324, 1101, 8453, 42161, 59144''"
    by (simp add: js_def)
  from getProperty_unsupported [OF assms] show ?thesis
    unfolding prepareUrl_def Let_def supportedChainIds_joined msg
    by (simp only: if_True)
qed

subsection \<open>The fetcher and the loop\<close>

text \<open>
  One iteration of the loop, by the outcome of \<open>fetchData\<close>; then a run over full pages,
  each served at the cursor the loop sends.
\<close>

lemma fetchData_okResponse:
  "net (length (requests w)) url ts = okResponse ps \<Longrightarrow>
   fetchData net url ts w = (Inr ps, w\<lparr>requests := requests w @ [(url, ts)]\<rparr>)"
  by (simp add: fetchData_def okResponse_def Let_def)

text \<open>Every call of \<open>fetchData\<close> issues exactly one request, with the cursor it was given.\<close>

lemma fetchData_requests:
  "requests (snd (fetchData net url ts w)) = requests w @ [(url, ts)]"
  by (simp add: fetchData_def Let_def split: sum.splits option.splits errors_field.splits)

lemma returnTags_loop_error:
  "fetchData net url ts w = (Inl e, w1) \<Longrightarrow>
   returnTags_loop net c url ts tags w = Some (Inl (fst (catchBlock e w1)), snd (catchBlock e w1))"
  by (subst returnTags_loop.simps) (simp add: split_beta)

lemma returnTags_loop_done:
  "fetchData net url ts w = (Inr ps, w1) \<Longrightarrow> length ps \<noteq> 1000 \<Longrightarrow>
   returnTags_loop net c url ts tags w =
     Some (Inr (tags @ fst (transformPairsToTags c ps)),
           w1\<lparr>console := console w1 @ snd (transformPairsToTags c ps)\<rparr>)"
  by (subst returnTags_loop.simps) (simp add: split_beta Let_def)

lemma returnTags_loop_more:
  "fetchData net url ts w = (Inr ps, w1) \<Longrightarrow> length ps = 1000 \<Longrightarrow>
   returnTags_loop net c url ts tags w =
     returnTags_loop net c url (parseInt (number_toString (timestamp (last ps))))
       (tags @ fst (transformPairsToTags c ps))
       (w1\<lparr>console := console w1 @ snd (transformPairsToTags c ps)\<rparr>)"
proof -
  assume f: "fetchData net url ts w = (Inr ps, w1)" and len: "length ps = 1000"
  from len have "ps \<noteq> []" by auto
  then have "ps ! (length ps - 1) = last ps" by (simp add: last_conv_nth)
  with f len show ?thesis
    by (subst returnTags_loop.simps) (simp add: split_beta Let_def)
qed

lemma returnTags_loop_full_pages:
  assumes "\<forall>i<length full.
      net (length (requests w) + i) url
        ((ts # map (\<lambda>p. parseInt (number_toString (timestamp (last p)))) full) ! i) =
      okResponse (full ! i)"
    and "\<forall>p\<in>set full. length p = 1000"
  shows "returnTags_loop net c url ts tags w =
     returnTags_loop net c url
       (last (ts # map (\<lambda>p. parseInt (number_toString (timestamp (last p)))) full))
       (tags @ concat (map (\<lambda>p. fst (transformPairsToTags c p)) full))
       \<lparr>requests = requests w @
          map (Pair url) (butlast (ts # map (\<lambda>p. parseInt (number_toString (timestamp (last p)))) full)),
        console = console w @ concat (map (\<lambda>p. snd (transformPairsToTags c p)) full)\<rparr>"
  using assms
proof (induction full arbitrary: ts tags w)
  case Nil
  show ?case by (cases w) simp
next
  case (Cons p rest)
  let ?nc = "\<lambda>p. parseInt (number_toString (timestamp (last p)))"
  let ?w1 = "w\<lparr>requests := requests w @ [(url, ts)]\<rparr>"
  let ?w2 = "?w1\<lparr>console := console ?w1 @ snd (transformPairsToTags c p)\<rparr>"
  have "0 < length (p # rest)" by simp
  with Cons.prems(1)
  have "net (length (requests w) + 0) url ((ts # map ?nc (p # rest)) ! 0) = okResponse ((p # rest) ! 0)"
    by blast
  then have "net (length (requests w)) url ts = okResponse p" by simp
  then have f: "fetchData net url ts w = (Inr p, ?w1)"
    by (rule fetchData_okResponse)
  from Cons.prems(2) have len: "length p = 1000" by simp
  have step: "returnTags_loop net c url ts tags w =
      returnTags_loop net c url (?nc p) (tags @ fst (transformPairsToTags c p)) ?w2"
    by (rule returnTags_loop_more [OF f len])
  have served: "\<forall>i<length rest.
      net (length (requests ?w2) + i) url ((?nc p # map ?nc rest) ! i) = okResponse (rest ! i)"
  proof (intro allI impI)
    fix i
    assume "i < length rest"
    then have "Suc i < length (p # rest)" by simp
    with Cons.prems(1)
    have "net (length (requests w) + Suc i) url ((ts # map ?nc (p # rest)) ! Suc i) =
        okResponse ((p # rest) ! Suc i)"
      by blast
    then show "net (length (requests ?w2) + i) url ((?nc p # map ?nc rest) ! i) = okResponse (rest ! i)"
      by simp
  qed
  from Cons.prems(2) have full: "\<forall>q\<in>set rest. length q = 1000" by simp
  show ?case
    unfolding step Cons.IH [where w = "?w2" and ts = "?nc p", OF served full] by simp
qed

text \<open>
  The same from \<open>returnTags\<close>: \<open>cursors\<close> are the cursors the loop sends, the initial 0 and
  then what it reads off the last pair of each full page.
\<close>

lemma returnTags_after_full_pages:
  assumes url: "prepareUrl c k = Inr url"
    and cursors: "cursors = Num 0 # map (\<lambda>p. parseInt (number_toString (timestamp (last p)))) full"
    and served: "\<forall>i<length full. net i url (cursors ! i) = okResponse (full ! i)"
    and full: "\<forall>p\<in>set full. length p = 1000"
  shows "returnTags net c k =
     returnTags_loop net c url (cursors ! length full)
       (concat (map (\<lambda>p. fst (transformPairsToTags c p)) full))
       \<lparr>requests = map (Pair url) (butlast cursors),
        console = concat (map (\<lambda>p. snd (transformPairsToTags c p)) full)\<rparr>"
proof -
  let ?init = "\<lparr>requests = [], console = []\<rparr>"
  let ?cs = "Num 0 # map (\<lambda>p. parseInt (number_toString (timestamp (last p)))) full"
  from served cursors have s0:
    "\<forall>i<length full. net (length (requests ?init) + i) url (?cs ! i) = okResponse (full ! i)"
    by simp
  have "last ?cs = ?cs ! (length ?cs - 1)"
    by (rule last_conv_nth) simp
  then have l: "last ?cs = ?cs ! length full" by simp
  show ?thesis
    unfolding returnTags_def Let_def url sum.case cursors
      returnTags_loop_full_pages [where w = "?init" and full = full and net = net and url = url
        and ts = "Num 0", OF s0 full] l
    by simp
qed

lemma returnTags_pages:
  assumes url: "prepareUrl c k = Inr url"
    and cursors: "cursors = Num 0 # map (\<lambda>p. parseInt (number_toString (timestamp (last p)))) full"
    and served: "\<forall>i<length full. net i url (cursors ! i) = okResponse (full ! i)"
    and final: "net (length full) url (cursors ! length full) = okResponse final"
    and full: "\<forall>p\<in>set full. length p = 1000"
    and short: "length final \<noteq> 1000"
  shows "returnTags net c k =
     Some (Inr (concat (map (\<lambda>p. fst (transformPairsToTags c p)) (full @ [final]))),
           \<lparr>requests = map (Pair url) cursors,
            console = concat (map (\<lambda>p. snd (transformPairsToTags c p)) (full @ [final]))\<rparr>)"
proof -
  let ?w = "\<lparr>requests = map (Pair url) (butlast cursors),
            console = concat (map (\<lambda>p. snd (transformPairsToTags c p)) full)\<rparr>"
  from cursors have len: "length cursors = Suc (length full)" by simp
  then have "length (requests ?w) = length full" by simp
  with final have "net (length (requests ?w)) url (cursors ! length full) = okResponse final" by simp
  then have f: "fetchData net url (cursors ! length full) ?w =
      (Inr final, ?w\<lparr>requests := requests ?w @ [(url, cursors ! length full)]\<rparr>)"
    by (rule fetchData_okResponse)
  from len have ne: "cursors \<noteq> []" by auto
  then have "last cursors = cursors ! (length cursors - 1)"
    by (rule last_conv_nth)
  with len have "butlast cursors @ [cursors ! length full] = cursors"
    using append_butlast_last_id [OF ne] by simp
  then have bl: "map (Pair url) (butlast cursors) @ [(url, cursors ! length full)] = map (Pair url) cursors"
    by (metis (no_types, lifting) list.simps(8,9) map_append)
  show ?thesis
    unfolding returnTags_after_full_pages [where net = net, OF url cursors served full]
      returnTags_loop_done [OF f short]
    using bl by simp
qed

text \<open>
  Partial correctness, by the induction rule of the loop: whenever the loop returns an
  error, it is one of the two errors the \<open>catch\<close> block constructs.
\<close>

lemma returnTags_loop_error_shape:
  assumes "returnTags_loop net c url ts tags w = Some (Inl e, w1)"
  shows "(\<exists>orig. isError orig \<and> e = new_Error (js ''Failed fetching data: '' @ ToString orig)) \<or>
         e = new_Error (js ''An unknown error occurred during fetch operation.'')"
proof -
  let ?Q = "\<lambda>y::(thrown + ContractTag list) \<times> world. \<forall>e w1. y = (Inl e, w1) \<longrightarrow>
      (\<exists>orig. isError orig \<and> e = new_Error (js ''Failed fetching data: '' @ ToString orig)) \<or>
      e = new_Error (js ''An unknown error occurred during fetch operation.'')"
  have "?Q (Inl e, w1)"
  proof (rule returnTags_loop.raw_induct [where P = "\<lambda>net c url ts tags w. ?Q", OF _ assms])
    fix loop :: "network \<Rightarrow> jsstring \<Rightarrow> jsstring \<Rightarrow> number \<Rightarrow> ContractTag list \<Rightarrow> world \<Rightarrow>
        ((thrown + ContractTag list) \<times> world) option"
    fix net c url ts tags w y
    assume IH: "\<And>net c url ts tags w y. loop net c url ts tags w = Some y \<Longrightarrow> ?Q y"
    assume body: "(case fetchData net url ts w of
        (Inl error, w1) \<Rightarrow> (case catchBlock error w1 of (e, w2) \<Rightarrow> Some (Inl e, w2))
      | (Inr ps, w1) \<Rightarrow>
          (case transformPairsToTags c ps of
             (tags1, logged) \<Rightarrow>
               (let allTags1 = tags @ tags1;
                    w2 = w1\<lparr>console := console w1 @ logged\<rparr>;
                    isMore = (length ps = 1000)
                in if isMore then
                     loop net c url
                       (parseInt (number_toString (timestamp (ps ! (length ps - 1))))) allTags1 w2
                   else Some (Inr allTags1, w2)))) = Some y"
    obtain r w1 where f: "fetchData net url ts w = (r, w1)" by (cases "fetchData net url ts w")
    show "?Q y"
    proof (cases r)
      case (Inl orig)
      with body f have y: "y = (Inl (fst (catchBlock orig w1)), snd (catchBlock orig w1))"
        by (simp add: split_beta)
      show ?thesis
      proof (cases "isError orig")
        case True
        with y show ?thesis by (auto simp: catchBlock_def)
      next
        case False
        with y show ?thesis by (simp add: catchBlock_def)
      qed
    next
      case (Inr ps)
      show ?thesis
      proof (cases "length ps = 1000")
        case True
        with body f Inr have "loop net c url
            (parseInt (number_toString (timestamp (ps ! (length ps - 1)))))
            (tags @ fst (transformPairsToTags c ps))
            (w1\<lparr>console := console w1 @ snd (transformPairsToTags c ps)\<rparr>) = Some y"
          by (simp add: split_beta Let_def)
        then show ?thesis by (rule IH)
      next
        case False
        with body f Inr show ?thesis
          by (auto simp: split_beta Let_def)
      qed
    qed
  qed
  then show ?thesis by simp
qed

subsection \<open>The sample inputs\<close>

lemma prepareUrl_sample: "prepareUrl (js ''1'') (js ''key'') = Inr sampleUrl"
  by code_simp

lemma prepareUrl_56:
  "prepareUrl (js ''56'') (js ''key'') =
     Inl (new_Error (js ''Unsupported or invalid Chain ID provided: 56. Only the following values are accepted: 1, 324, 1101, 8453, 42161, 59144''))"
  by code_simp

lemma sample_tags_good: "fst (transformPairsToTags c (replicate n goodPair)) = replicate n (pairToTag c goodPair)"
proof -
  have good: "\<not> containsInvalidValue (js ''USD Coin'')" "\<not> containsInvalidValue (js ''USDC'')"
    "\<not> containsInvalidValue (js ''Wrapped Ether'')" "\<not> containsInvalidValue (js ''WETH'')"
    by (simp_all add: containsInvalidValue_def js_def trim_def isWhiteSpace_def)
  then show ?thesis
    unfolding transformPairsToTags_tags
    by (simp add: goodPair_def usdCoin_def wrappedEther_def)
qed

lemma sample_tags_bad: "fst (transformPairsToTags c (replicate n badPair)) = []"
proof -
  have bad: "containsInvalidValue (js ''<script>'')"
    by (simp add: containsInvalidValue_def js_def trim_def isWhiteSpace_def)
  then show ?thesis
    unfolding transformPairsToTags_tags
    by (simp add: badPair_def scriptToken_def)
qed





lemma number_toString_500: "number_toString (toDouble 500) = js ''500''"
  by code_simp


lemma fetchData_serverError:
  "net (length (requests w)) url cur = serverError \<Longrightarrow>
   fst (fetchData net url cur w) = Inl (new_Error (js ''HTTP error: 500''))"
  by (simp add: fetchData_def serverError_def Let_def number_toString_500) (simp add: js_def)

section \<open>The claims\<close>

subsection \<open>C1: the validator\<close>

text \<open>
  Claim C1, as the specification states it, has \<open>isValid("A<B") = false\<close>. \<open>isValid\<close> is
  the negation of \<open>containsInvalidValue\<close>, and the regular expression needs a closing
  \<open>>\<close>: \<open>A<B\<close> is not rejected.
\<close>

theorem C1_counterexample: "\<not> containsInvalidValue (js ''A<B'')"
  by (simp add: containsInvalidValue_def js_def trim_def isWhiteSpace_def)

text \<open>
  Claim C1, amended: for every text value, \<open>containsInvalidValue\<close> holds exactly when the
  trimmed value is empty or the value contains a \<open><\<close>, then code units other than \<open>>\<close>,
  then a \<open>>\<close>. In particular \<open>USD Coin\<close> is valid, the empty string, \<open>"  "\<close> and
  \<open><script>\<close> are invalid, and \<open>A<B\<close>, which has no closing \<open>>\<close>, is valid.
\<close>

theorem C1_containsInvalidValue:
  "(containsInvalidValue text \<longleftrightarrow>
      trim text = [] \<or>
      (\<exists>pre mid post. text = pre @ of_char CHR ''<'' # mid @ of_char CHR ''>'' # post \<and>
         of_char CHR ''>'' \<notin> set mid)) \<and>
   \<not> containsInvalidValue (js ''USD Coin'') \<and>
   containsInvalidValue (js []) \<and>
   containsInvalidValue (js ''  '') \<and>
   containsInvalidValue (js ''<script>'') \<and>
   \<not> containsInvalidValue (js ''A<B'')"
proof -
  have "containsInvalidValue text \<longleftrightarrow>
      trim text = [] \<or>
      (\<exists>pre mid post. text = pre @ of_char CHR ''<'' # mid @ of_char CHR ''>'' # post \<and>
         of_char CHR ''>'' \<notin> set mid)"
    unfolding containsInvalidValue_def Let_def testTag_iff ..
  moreover have "\<not> containsInvalidValue (js ''USD Coin'')"
    by (simp add: containsInvalidValue_def js_def trim_def isWhiteSpace_def)
  moreover have "containsInvalidValue (js [])"
    by (simp add: containsInvalidValue_def js_def trim_def)
  moreover have "containsInvalidValue (js ''  '')"
    by (simp add: containsInvalidValue_def js_def trim_def isWhiteSpace_def)
  moreover have "containsInvalidValue (js ''<script>'')"
    by (simp add: containsInvalidValue_def js_def trim_def isWhiteSpace_def)
  moreover have "\<not> containsInvalidValue (js ''A<B'')"
    by (simp add: containsInvalidValue_def js_def trim_def isWhiteSpace_def)
  ultimately show ?thesis by blast
qed

theorem C1_containsInvalidValue_witness:
  "containsInvalidValue (js ''A<B>'') \<and> trim (js ''A<B>'') \<noteq> [] \<and>
   (\<exists>pre mid post. js ''A<B>'' = pre @ of_char CHR ''<'' # mid @ of_char CHR ''>'' # post \<and>
      of_char CHR ''>'' \<notin> set mid)"
proof -
  have inv: "containsInvalidValue (js ''A<B>'')"
    by (simp add: containsInvalidValue_def js_def trim_def isWhiteSpace_def)
  have tr: "trim (js ''A<B>'') \<noteq> []"
    by (simp add: js_def trim_def isWhiteSpace_def)
  from C1_containsInvalidValue [of "js ''A<B>''"] inv tr show ?thesis by blast
qed

subsection \<open>C2: the loop continues exactly on a page of 1000\<close>

text \<open>
  Claim C2: the orchestrator fetches again exactly when the page just fetched holds 1000
  raw pairs. Let the network answer the first calls, each at the cursor the loop sends,
  with pages of exactly 1000 pairs, and the next call with a page of any other size
  (0 included). Then \<open>returnTags\<close> returns, its result is the concatenation of the tags of
  the valid pairs of all these pages, and it has issued exactly one fetch per page. The
  instances are pages of sizes 1000, 1000 and 437 (3 calls) and a first page of size 0
  (1 call, empty result).
\<close>

theorem C2_pagination:
  assumes "prepareUrl chainId apiKey = Inr url"
    and "cursors = Num 0 # map (\<lambda>p. parseInt (number_toString (timestamp (last p)))) full"
    and "\<forall>i<length full. net i url (cursors ! i) = okResponse (full ! i)"
    and "net (length full) url (cursors ! length full) = okResponse final"
    and "\<forall>p\<in>set full. length p = 1000"
    and "length final \<noteq> 1000"
  shows "\<exists>w. returnTags net chainId apiKey =
           Some (Inr (concat (map (\<lambda>p. fst (transformPairsToTags chainId p)) (full @ [final]))), w) \<and>
         length (requests w) = length full + 1"
  unfolding returnTags_pages [where net = net, OF assms] using assms(2) by simp

theorem C2_pagination_witness:
  "(\<exists>w. returnTags (pagesNet [fullPage, rejectedPage, lastPage]) (js ''1'') (js ''key'') =
          Some (Inr (replicate 1000 (pairToTag (js ''1'') goodPair) @ [] @
                     replicate 437 (pairToTag (js ''1'') goodPair)), w) \<and>
        length (requests w) = 3) \<and>
   (\<exists>w. returnTags (pagesNet [[]]) (js ''1'') (js ''key'') = Some (Inr [], w) \<and>
        length (requests w) = 1)"
proof -
  have three: "\<forall>i<length [fullPage, rejectedPage].
      pagesNet [fullPage, rejectedPage, lastPage] i sampleUrl (cs ! i) =
      okResponse ([fullPage, rejectedPage] ! i)" for cs
    by (simp add: pagesNet_def nth_Cons split: nat.splits)
  have last: "pagesNet [fullPage, rejectedPage, lastPage] (length [fullPage, rejectedPage]) sampleUrl cur =
      okResponse lastPage" for cur
    by (simp add: pagesNet_def)
  have full: "\<forall>p\<in>set [fullPage, rejectedPage]. length p = 1000"
    by (simp add: fullPage_def rejectedPage_def)
  have short: "length lastPage \<noteq> 1000"
    by (simp add: lastPage_def)
  have none: "\<forall>i<length ([]::Pair list list). pagesNet [[]] i sampleUrl (cs ! i) = okResponse ([] ! i)"
    for cs
    by simp
  have empty: "pagesNet [[]] (length ([]::Pair list list)) sampleUrl cur = okResponse []" for cur
    by (simp add: pagesNet_def)
  have tagsEmpty: "fst (transformPairsToTags (js ''1'') []) = []"
    by (simp add: transformPairsToTags_def)
  from C2_pagination [where net = "pagesNet [fullPage, rejectedPage, lastPage]" and url = sampleUrl
        and full = "[fullPage, rejectedPage]", OF prepareUrl_sample refl three last full short]
    C2_pagination [where net = "pagesNet [[]]" and url = sampleUrl and full = "[]",
        OF prepareUrl_sample refl none empty]
  show ?thesis
    by (simp add: fullPage_def rejectedPage_def lastPage_def sample_tags_good sample_tags_bad tagsEmpty
        numeral_3_eq_3)
qed

subsection \<open>C3: truncation\<close>

text \<open>
  Claim C3: truncation to the 45-character budget leaves a string of length at most 45
  unchanged, and maps a longer string to its first 42 characters followed by \<open>...\<close>,
  which is 45 characters long.
\<close>

theorem C3_truncateString:
  "(length text \<le> 45 \<longrightarrow> truncateString text 45 = text) \<and>
   (45 < length text \<longrightarrow>
      truncateString text 45 = take 42 text @ js ''...'' \<and>
      length (truncateString text 45) = 45)"
  by (auto simp: truncateString_def substring_def Let_def js_def min_def max_def)

theorem C3_truncateString_witness:
  "truncateString (js ''USDC/WETH'') 45 = js ''USDC/WETH'' \<and>
   truncateString (js ''ABCDEFGHIJKLMNOPQRSTUVWXYZabcdefghijklmnopqrstuvwxyz'') 45 =
     js ''ABCDEFGHIJKLMNOPQRSTUVWXYZabcdefghijklmnop...'' \<and>
   length (truncateString (js ''ABCDEFGHIJKLMNOPQRSTUVWXYZabcdefghijklmnopqrstuvwxyz'') 45) = 45"
  using C3_truncateString [of "js ''USDC/WETH''"]
    C3_truncateString [of "js ''ABCDEFGHIJKLMNOPQRSTUVWXYZabcdefghijklmnopqrstuvwxyz''"]
  by (simp add: js_def)

subsection \<open>C4: only valid pairs yield tags\<close>

text \<open>
  Claim C4: for every page, the tags returned are those of the pairs whose four token
  text fields (\<open>token0.name\<close>, \<open>token0.symbol\<close>, \<open>token1.name\<close>, \<open>token1.symbol\<close>) all pass
  validation, so every tag comes from such a pair and a pair with an invalid field
  yields none, whatever the other token is. Rejection is no error: the function returns
  its list for every input.
\<close>

theorem C4_only_valid_pairs:
  "fst (transformPairsToTags chainId ps) =
     map (pairToTag chainId)
       (filter (\<lambda>p. \<not> containsInvalidValue (name (token0 p)) \<and>
                    \<not> containsInvalidValue (symbol (token0 p)) \<and>
                    \<not> containsInvalidValue (name (token1 p)) \<and>
                    \<not> containsInvalidValue (symbol (token1 p))) ps) \<and>
   (\<forall>t \<in> set (fst (transformPairsToTags chainId ps)).
      \<exists>p \<in> set ps. t = pairToTag chainId p \<and>
        \<not> containsInvalidValue (name (token0 p)) \<and>
        \<not> containsInvalidValue (symbol (token0 p)) \<and>
        \<not> containsInvalidValue (name (token1 p)) \<and>
        \<not> containsInvalidValue (symbol (token1 p)))"
  unfolding transformPairsToTags_tags by auto

theorem C4_only_valid_pairs_witness:
  "fst (transformPairsToTags (js ''1'') [badPair, goodPair, badPair]) = [pairToTag (js ''1'') goodPair]"
proof -
  have good: "\<not> containsInvalidValue (js ''USD Coin'')" "\<not> containsInvalidValue (js ''USDC'')"
    "\<not> containsInvalidValue (js ''Wrapped Ether'')" "\<not> containsInvalidValue (js ''WETH'')"
    by (simp_all add: containsInvalidValue_def js_def trim_def isWhiteSpace_def)
  have bad: "containsInvalidValue (js ''<script>'')"
    by (simp add: containsInvalidValue_def js_def trim_def isWhiteSpace_def)
  from C4_only_valid_pairs [of "js ''1''" "[badPair, goodPair, badPair]", THEN conjunct1] good bad
  show ?thesis
    by (simp add: goodPair_def badPair_def usdCoin_def wrappedEther_def scriptToken_def)
qed

subsection \<open>C5: a failing fetch fails the whole call\<close>

text \<open>
  Claim C5: if the fetch of some page fails, after any number of full pages fetched and
  transformed successfully, \<open>returnTags\<close> fails: its result is an error and never a list
  of tags. The instance is a full page of valid pairs, which yields 1000 tags, followed
  by an HTTP 500 on page 2.
\<close>

theorem C5_no_partial_success:
  assumes "prepareUrl chainId apiKey = Inr url"
    and "cursors = Num 0 # map (\<lambda>p. parseInt (number_toString (timestamp (last p)))) full"
    and "\<forall>i<length full. net i url (cursors ! i) = okResponse (full ! i)"
    and "\<forall>p\<in>set full. length p = 1000"
    and "\<forall>w. length (requests w) = length full \<longrightarrow>
           (\<exists>e. fst (fetchData net url (cursors ! length full) w) = Inl e)"
  shows "(\<exists>e w. returnTags net chainId apiKey = Some (Inl e, w)) \<and>
         (\<forall>tags w. returnTags net chainId apiKey \<noteq> Some (Inr tags, w))"
proof -
  let ?c = "cursors ! length full"
  let ?w = "\<lparr>requests = map (Pair url) (butlast cursors),
            console = concat (map (\<lambda>p. snd (transformPairsToTags chainId p)) full)\<rparr>"
  from assms(2) have "length (requests ?w) = length full" by simp
  with assms(5) obtain e where "fst (fetchData net url ?c ?w) = Inl e" by blast
  then have "fetchData net url ?c ?w = (Inl e, snd (fetchData net url ?c ?w))"
    by (metis prod.collapse)
  then have "returnTags net chainId apiKey =
      Some (Inl (fst (catchBlock e (snd (fetchData net url ?c ?w)))),
            snd (catchBlock e (snd (fetchData net url ?c ?w))))"
    unfolding returnTags_after_full_pages [where net = net, OF assms(1) assms(2) assms(3) assms(4)]
    by (rule returnTags_loop_error)
  then show ?thesis by simp
qed

theorem C5_no_partial_success_witness:
  "fst (transformPairsToTags (js ''1'') fullPage) = replicate 1000 (pairToTag (js ''1'') goodPair) \<and>
   (\<exists>e w. returnTags (pagesNet [fullPage]) (js ''1'') (js ''key'') = Some (Inl e, w)) \<and>
   (\<forall>tags w. returnTags (pagesNet [fullPage]) (js ''1'') (js ''key'') \<noteq> Some (Inr tags, w))"
proof -
  have served: "\<forall>i<length [fullPage]. pagesNet [fullPage] i sampleUrl (cs ! i) = okResponse ([fullPage] ! i)"
    for cs
    by (simp add: pagesNet_def)
  have full: "\<forall>p\<in>set [fullPage]. length p = 1000"
    by (simp add: fullPage_def)
  have fails: "\<forall>w. length (requests w) = length [fullPage] \<longrightarrow>
      (\<exists>e. fst (fetchData (pagesNet [fullPage]) sampleUrl cur w) = Inl e)" for cur
    by (simp add: fetchData_serverError pagesNet_def)
  from C5_no_partial_success [where net = "pagesNet [fullPage]" and url = sampleUrl and full = "[fullPage]",
      OF prepareUrl_sample refl served full fails]
  show ?thesis
    by (simp add: fullPage_def sample_tags_good)
qed

subsection \<open>C6: unsupported chain identifiers\<close>

text \<open>
  Claim C6: for every chain identifier that is not a key of the registry or is not
  numeric, \<open>prepareUrl\<close> fails with the error whose message lists the six valid
  identifiers (1, 324, 1101, 8453, 42161, 59144), and \<open>returnTags\<close> fails with it before
  any fetch call is issued.
\<close>

theorem C6_unsupported_chain:
  assumes "chainId \<notin> set (Object_keys SUBGRAPH_URLS) \<or> isNaN_Number chainId"
  shows "Object_keys SUBGRAPH_URLS = map js [''1'', ''324'', ''1101'', ''8453'', ''42161'', ''59144''] \<and>
    prepareUrl chainId apiKey =
      Inl (new_Error (js ''Unsupported or invalid Chain ID provided: '' @ chainId @
             js ''. Only the following values are accepted: 1, 324, 1101, 8453, 42161, 59144'')) \<and>
    returnTags net chainId apiKey =
      Some (Inl (new_Error (js ''Unsupported or invalid Chain ID provided: '' @ chainId @
                   js ''. Only the following values are accepted: 1, 324, 1101, 8453, 42161, 59144'')),
            \<lparr>requests = [], console = []\<rparr>)"
  by (simp add: Object_keys_SUBGRAPH_URLS returnTags_def Let_def prepareUrl_unsupported [OF assms])

theorem C6_unsupported_chain_witness:
  "prepareUrl (js ''56'') (js ''key'') =
      Inl (new_Error (js ''Unsupported or invalid Chain ID provided: 56. Only the following values are accepted: 1, 324, 1101, 8453, 42161, 59144'')) \<and>
   prepareUrl (js ''toString'') (js ''key'') =
      Inl (new_Error (js ''Unsupported or invalid Chain ID provided: toString. Only the following values are accepted: 1, 324, 1101, 8453, 42161, 59144'')) \<and>
   returnTags (pagesNet [fullPage]) (js ''56'') (js ''key'') =
      Some (Inl (new_Error (js ''Unsupported or invalid Chain ID provided: 56. Only the following values are accepted: 1, 324, 1101, 8453, 42161, 59144'')),
            \<lparr>requests = [], console = []\<rparr>)"
proof -
  have a: "js ''56'' \<notin> set (Object_keys SUBGRAPH_URLS) \<or> isNaN_Number (js ''56'')"
    by (simp add: Object_keys_SUBGRAPH_URLS) (simp add: js_def)
  have b: "js ''toString'' \<notin> set (Object_keys SUBGRAPH_URLS) \<or> isNaN_Number (js ''toString'')"
    by (simp add: Object_keys_SUBGRAPH_URLS) (simp add: js_def)
  from C6_unsupported_chain [OF a, of "js ''key''" "pagesNet [fullPage]"]
    C6_unsupported_chain [OF b, of "js ''key''" "pagesNet [fullPage]"]
  show ?thesis by (simp add: js_def)
qed

subsection \<open>C7: the cursor of the next fetch\<close>


subsection \<open>C8: one tag per valid pair, in order, with its address\<close>

text \<open>
  Claim C8: the transformer returns one tag per valid pair, in the order of the input,
  and the Contract Address of each is \<open>eip155:<chainId>:<poolId>\<close>; for chain \<open>1\<close> and
  pool id \<open>0xabc\<close> it is \<open>eip155:1:0xabc\<close>.
\<close>

theorem C8_contract_address:
  "map Contract_Address (fst (transformPairsToTags chainId ps)) =
     map (\<lambda>p. js ''eip155:'' @ chainId @ js '':'' @ pair_id p)
       (filter (\<lambda>p. \<not> containsInvalidValue (name (token0 p)) \<and>
                    \<not> containsInvalidValue (symbol (token0 p)) \<and>
                    \<not> containsInvalidValue (name (token1 p)) \<and>
                    \<not> containsInvalidValue (symbol (token1 p))) ps) \<and>
   (pair_id p = js ''0xabc'' \<longrightarrow>
      Contract_Address (pairToTag (js ''1'') p) = js ''eip155:1:0xabc'')"
  unfolding transformPairsToTags_tags
  by (simp add: pairToTag_def Let_def js_def comp_def)

theorem C8_contract_address_witness:
  "map Contract_Address (fst (transformPairsToTags (js ''1'') [goodPair, badPair, goodPair])) =
     [js ''eip155:1:0xabc'', js ''eip155:1:0xabc''] \<and>
   Contract_Address (pairToTag (js ''1'') goodPair) = js ''eip155:1:0xabc''"
proof -
  have good: "\<not> containsInvalidValue (js ''USD Coin'')" "\<not> containsInvalidValue (js ''USDC'')"
    "\<not> containsInvalidValue (js ''Wrapped Ether'')" "\<not> containsInvalidValue (js ''WETH'')"
    by (simp_all add: containsInvalidValue_def js_def trim_def isWhiteSpace_def)
  have bad: "containsInvalidValue (js ''<script>'')"
    by (simp add: containsInvalidValue_def js_def trim_def isWhiteSpace_def)
  have id: "pair_id goodPair = js ''0xabc''"
    by (simp add: goodPair_def)
  have addr: "js ''eip155:'' @ js ''1'' @ js '':'' @ js ''0xabc'' = js ''eip155:1:0xabc''"
    by (simp add: js_def)
  from C8_contract_address [of "js ''1''" "[goodPair, badPair, goodPair]" goodPair] good bad id addr
  show ?thesis
    by (simp add: goodPair_def badPair_def usdCoin_def wrappedEther_def scriptToken_def)
qed

subsection \<open>C9: an \<open>errors\<close> list fails the fetch\<close>




subsection \<open>C10: which errors reach the caller\<close>

text \<open>
  Claim C10: an error of \<open>prepareUrl\<close> reaches the caller of \<open>returnTags\<close> as it is, with no
  fetch issued. An error raised in an iteration of the loop reaches the caller as a new
  error: with the message \<open>Failed fetching data: \<close> followed by the string conversion of
  the original when \<open>isError\<close> holds of it (it has a string \<open>message\<close>), and with the
  message \<open>An unknown error occurred during fetch operation.\<close> otherwise; and every
  error that \<open>returnTags\<close> fails with after URL resolution has one of these two forms.
\<close>

theorem C10_error_wrapping:
  "(prepareUrl chainId apiKey = Inl e \<longrightarrow>
      returnTags net chainId apiKey = Some (Inl e, \<lparr>requests = [], console = []\<rparr>)) \<and>
   (fst (fetchData net url ts w) = Inl orig \<longrightarrow>
      (\<exists>w1. returnTags_loop net chainId url ts tags w =
         Some (Inl (if isError orig
                    then new_Error (js ''Failed fetching data: '' @ ToString orig)
                    else new_Error (js ''An unknown error occurred during fetch operation.'')), w1))) \<and>
   (prepareUrl chainId apiKey = Inr url \<and> returnTags net chainId apiKey = Some (Inl e, w) \<longrightarrow>
      (\<exists>orig. isError orig \<and> e = new_Error (js ''Failed fetching data: '' @ ToString orig)) \<or>
      e = new_Error (js ''An unknown error occurred during fetch operation.''))"
proof (intro conjI impI)
  assume "prepareUrl chainId apiKey = Inl e"
  then show "returnTags net chainId apiKey = Some (Inl e, \<lparr>requests = [], console = []\<rparr>)"
    by (simp add: returnTags_def)
next
  assume "fst (fetchData net url ts w) = Inl orig"
  then have "fetchData net url ts w = (Inl orig, snd (fetchData net url ts w))"
    by (metis prod.collapse)
  from returnTags_loop_error [OF this]
  show "\<exists>w1. returnTags_loop net chainId url ts tags w =
         Some (Inl (if isError orig
                    then new_Error (js ''Failed fetching data: '' @ ToString orig)
                    else new_Error (js ''An unknown error occurred during fetch operation.'')), w1)"
    by (simp add: catchBlock_def)
next
  assume "prepareUrl chainId apiKey = Inr url \<and> returnTags net chainId apiKey = Some (Inl e, w)"
  then have "returnTags_loop net chainId url (Num 0) [] \<lparr>requests = [], console = []\<rparr> = Some (Inl e, w)"
    by (auto simp: returnTags_def Let_def)
  then show "(\<exists>orig. isError orig \<and> e = new_Error (js ''Failed fetching data: '' @ ToString orig)) \<or>
      e = new_Error (js ''An unknown error occurred during fetch operation.'')"
    by (rule returnTags_loop_error_shape)
qed

theorem C10_error_wrapping_witness:
  "returnTags rejectingNet (js ''56'') (js ''key'') =
     Some (Inl (new_Error (js ''Unsupported or invalid Chain ID provided: 56. Only the following values are accepted: 1, 324, 1101, 8453, 42161, 59144'')),
           \<lparr>requests = [], console = []\<rparr>) \<and>
   (\<exists>w1. returnTags_loop (pagesNet []) (js ''1'') sampleUrl (Num 0) [] \<lparr>requests = [], console = []\<rparr> =
      Some (Inl (new_Error (js ''Failed fetching data: Error: HTTP error: 500'')), w1)) \<and>
   (\<exists>w1. returnTags_loop rejectingNet (js ''1'') sampleUrl (Num 0) [] \<lparr>requests = [], console = []\<rparr> =
      Some (Inl (new_Error (js ''An unknown error occurred during fetch operation.'')), w1)) \<and>
   returnTags rejectingNet (js ''1'') (js ''key'') =
     Some (Inl (new_Error (js ''An unknown error occurred during fetch operation.'')),
           \<lparr>requests = [(sampleUrl, Num 0)],
            console = [ConsoleError (js ''An unknown error occurred.'')]\<rparr>)"
proof -
  have f: "fetchData rejectingNet sampleUrl (Num 0) \<lparr>requests = [], console = []\<rparr> =
      (Inl (NonError (js ''timeout'')), \<lparr>requests = [(sampleUrl, Num 0)], console = []\<rparr>)"
    by (simp add: fetchData_def rejectingNet_def)
  have run: "returnTags rejectingNet (js ''1'') (js ''key'') =
      Some (Inl (new_Error (js ''An unknown error occurred during fetch operation.'')),
            \<lparr>requests = [(sampleUrl, Num 0)],
             console = [ConsoleError (js ''An unknown error occurred.'')]\<rparr>)"
    unfolding returnTags_def Let_def prepareUrl_sample sum.case returnTags_loop_error [OF f]
    by (simp add: catchBlock_def)
  have http: "fst (fetchData (pagesNet []) sampleUrl (Num 0) \<lparr>requests = [], console = []\<rparr>) =
      Inl (new_Error (js ''HTTP error: 500''))"
    by (simp add: fetchData_serverError pagesNet_def)
  have rej: "fst (fetchData rejectingNet sampleUrl (Num 0) \<lparr>requests = [], console = []\<rparr>) =
      Inl (NonError (js ''timeout''))"
    by (simp add: fetchData_def rejectingNet_def)
  from C10_error_wrapping [of "js ''56''" "js ''key''" _ rejectingNet, THEN conjunct1, rule_format, OF prepareUrl_56]
    C10_error_wrapping [where net = "pagesNet []" and url = sampleUrl and ts = "Num 0"
      and w = "\<lparr>requests = [], console = []\<rparr>", THEN conjunct2, THEN conjunct1, rule_format, OF http,
      of "js ''1''" "[]"]
    C10_error_wrapping [where net = rejectingNet and url = sampleUrl and ts = "Num 0"
      and w = "\<lparr>requests = [], console = []\<rparr>", THEN conjunct2, THEN conjunct1, rule_format, OF rej,
      of "js ''1''" "[]"]
    C10_error_wrapping [where net = rejectingNet and url = sampleUrl, THEN conjunct2, THEN conjunct2,
      rule_format, OF conjI [OF prepareUrl_sample run]]
    run
  show ?thesis
    by (simp add: new_Error_def js_def)
qed

end
